theory Spec2Isabelle
  imports Main "HOL-Library.Char_ord" "HOL-Library.List_Lexorder"
begin

section \<open>Conference status events (dolbyio/comms/conference.h)\<close>

text \<open>
  The enumeration \<^verbatim>\<open>conference_status\<close>, in the order of its declaration.
\<close>

datatype conference_status =
    creating
  | created
  | joining
  | joined
  | leaving
  | left
  | destroyed
  | error

text \<open>
  The event \<^verbatim>\<open>conference_status_updated\<close> has two public fields, the status and the
  conference identifier. The field \<^verbatim>\<open>id\<close> is written \<open>id_conf\<close> here, since \<open>id\<close> is
  the identity function of HOL.
\<close>

record conference_status_updated =
  status :: conference_status
  id_conf :: string

text \<open>
  The constructor assigns both fields from its arguments; the second argument defaults to
  the empty string in the source.
\<close>

definition new_conference_status_updated ::
  "conference_status \<Rightarrow> string \<Rightarrow> conference_status_updated" where
  "new_conference_status_updated val conf_id = \<lparr>status = val, id_conf = conf_id\<rparr>"

definition is_ended :: "'a conference_status_updated_scheme \<Rightarrow> bool" where
  "is_ended e \<longleftrightarrow>
     status e = left \<or> status e = error \<or> status e = destroyed"

section \<open>Logger sink (dolbyio/comms/logger_sink.h)\<close>

text \<open>
  The class \<^verbatim>\<open>logger_sink\<close> stores one private field, \<^verbatim>\<open>level_\<close>, written
  \<open>level_field\<close> here (a name of HOL cannot end with an underscore). The type
  \<^verbatim>\<open>log_level\<close> is declared in \<^verbatim>\<open>log_level.h\<close>, which is not among the vendored
  headers of the source tree: it is the type parameter \<open>'l\<close>. The source compares two levels with
  \<^verbatim>\<open><=\<close>, which on a scoped enumeration is the order of the underlying integers, so
  \<open>'l\<close> is taken in the class of linear orders. The method \<^verbatim>\<open>log\<close> is pure virtual;
  what a subclass adds to the object is the extension part of the record, and the
  constructor, which only a subclass can call, takes that part as its second argument.
\<close>

record 'l logger_sink =
  level_field :: 'l

definition new_logger_sink :: "'l \<Rightarrow> 'a \<Rightarrow> ('l, 'a) logger_sink_scheme" where
  "new_logger_sink level ext = \<lparr>level_field = level, \<dots> = ext\<rparr>"

definition is_enabled :: "('l::linorder, 'a) logger_sink_scheme \<Rightarrow> 'l \<Rightarrow> bool" where
  "is_enabled s level \<longleftrightarrow> level \<le> level_field s"

definition get_level :: "('l, 'a) logger_sink_scheme \<Rightarrow> 'l" where
  "get_level s = level_field s"

definition set_level :: "('l, 'a) logger_sink_scheme \<Rightarrow> 'l \<Rightarrow> ('l, 'a) logger_sink_scheme" where
  "set_level s level = s\<lparr>level_field := level\<rparr>"

section \<open>Build targets (Source/DolbyIODebugEditor.Target.cs and its sibling)\<close>

text \<open>
  The editor target is \<^verbatim>\<open>Source/DolbyIODebugEditor.Target.cs\<close>; the game target
  \<^verbatim>\<open>DolbyIODebugTarget\<close> is the second half of \<^verbatim>\<open>unnamed/part_001\<close>. Both target
  classes derive from \<^verbatim>\<open>TargetRules\<close> of UnrealBuildTool, which is not part of the
  repository. The constructors write four of its properties; these are the fields
  of the record below, and every other property of \<^verbatim>\<open>TargetRules\<close> is the extension
  part of the record. The three enumerations are UnrealBuildTool's as well; they list the
  enumerators of the engine version the targets name (5.1).
\<close>

datatype TargetType = Game | Editor | Client | Server | Program

datatype BuildSettingsVersion = V1 | V2 | V3

datatype EngineIncludeOrderVersion = Unreal5_0 | Unreal5_1

record TargetRules =
  Type :: TargetType
  DefaultBuildSettings :: BuildSettingsVersion
  IncludeOrderVersion :: EngineIncludeOrderVersion
  ExtraModuleNames :: "string list"

text \<open>
  Each constructor first runs the base constructor \<^verbatim>\<open>base(Target)\<close>; its result is the
  argument \<open>r\<close>. The body then performs three assignments and one \<^verbatim>\<open>List.Add\<close>, which
  appends.
\<close>

definition DolbyIODebugTarget :: "'a TargetRules_scheme \<Rightarrow> 'a TargetRules_scheme" where
  "DolbyIODebugTarget r =
     r\<lparr>Type := Game,
       DefaultBuildSettings := V2,
       IncludeOrderVersion := Unreal5_1,
       ExtraModuleNames := ExtraModuleNames r @ [''DolbyIODebug'']\<rparr>"

definition DolbyIODebugEditorTarget :: "'a TargetRules_scheme \<Rightarrow> 'a TargetRules_scheme" where
  "DolbyIODebugEditorTarget r =
     r\<lparr>Type := Editor,
       DefaultBuildSettings := V2,
       IncludeOrderVersion := Unreal5_1,
       ExtraModuleNames := ExtraModuleNames r @ [''DolbyIODebug'']\<rparr>"

section \<open>Deprecated fields (dolbyio/comms/conference.h)\<close>







section \<open>Video tracks and camera devices (media engine header)\<close>












section \<open>Audio capture modes (dolbyio/comms/audio_capture_mode.h)\<close>

datatype noise_reduction = high | low

datatype voice_font =
    none
  | masculine
  | feminine
  | helium
  | dark_modulation
  | broken_robot
  | interference
  | abyss
  | wobble
  | starship_captain
  | nervous_robot
  | swarm
  | am_radio







section \<open>Audio devices\<close>

text \<open>
  The class \<^verbatim>\<open>audio_device\<close> is declared in the second part of the file
  \<^verbatim>\<open>dolbyio/comms/rtcp_mode.h\<close>. An \<^verbatim>\<open>audio_device\<close> stores an opaque identity, a
  name, a direction and a native identifier. The identity's own equality operator is only
  declared in the header and implemented by the SDK library: it is the argument
  \<open>identity_eq\<close>, and the type of identities is the parameter \<open>'i\<close>. The native
  identifier is an integer or a string depending on the platform: the parameter \<open>'n\<close>.
  The three equality operators of the device are defined in the header; they all go
  through the identity's operator. The enumerators of \<^verbatim>\<open>direction\<close> carry the prefix
  \<open>dir_\<close>, since \<^verbatim>\<open>none\<close> is an enumerator of \<^verbatim>\<open>voice_font\<close> as well.
\<close>

datatype direction = dir_none | dir_input | dir_output | dir_input_and_output






section \<open>Properties\<close>

subsection \<open>Ended conferences\<close>

text \<open>
  Claim C2. For every \<^verbatim>\<open>conference_status_updated\<close> event, \<^verbatim>\<open>is_ended\<close> returns true
  exactly when the status is \<^verbatim>\<open>left\<close>, \<^verbatim>\<open>error\<close> or \<^verbatim>\<open>destroyed\<close>. It therefore
  returns false for \<^verbatim>\<open>creating\<close>, \<^verbatim>\<open>created\<close>, \<^verbatim>\<open>joining\<close>, \<^verbatim>\<open>joined\<close> and
  \<^verbatim>\<open>leaving\<close>, whatever the conference identifier is, although \<^verbatim>\<open>creating\<close> and
  \<^verbatim>\<open>created\<close> describe an inactive conference too.
\<close>

theorem is_ended_iff_left_error_destroyed:
  "is_ended e = (status e = left \<or> status e = error \<or> status e = destroyed)
   \<and> is_ended e = (status e \<noteq> creating \<and> status e \<noteq> created \<and> status e \<noteq> joining
                   \<and> status e \<noteq> joined \<and> status e \<noteq> leaving)
   \<and> \<not> is_ended (new_conference_status_updated creating c)
   \<and> \<not> is_ended (new_conference_status_updated created c)
   \<and> \<not> is_ended (new_conference_status_updated joining c)
   \<and> \<not> is_ended (new_conference_status_updated joined c)
   \<and> \<not> is_ended (new_conference_status_updated leaving c)
   \<and> is_ended (new_conference_status_updated left c)
   \<and> is_ended (new_conference_status_updated error c)
   \<and> is_ended (new_conference_status_updated destroyed c)"
  by (cases "status e") (simp_all add: is_ended_def new_conference_status_updated_def)

subsection \<open>Logger levels\<close>

text \<open>
  Claim C5. A sink constructed with level \<open>l\<close> reports \<open>l\<close> from \<^verbatim>\<open>get_level\<close>. For
  every sink and every level \<open>x\<close>, \<^verbatim>\<open>is_enabled\<close> holds exactly when \<open>x\<close> is at most
  the stored level, so the enabled levels are closed downwards. After \<^verbatim>\<open>set_level\<close>
  with \<open>l2\<close>, \<^verbatim>\<open>get_level\<close> returns \<open>l2\<close> and \<^verbatim>\<open>is_enabled\<close> compares with \<open>l2\<close>.
\<close>

theorem logger_sink_level_round_trip:
  fixes s :: "('l::linorder, 'a) logger_sink_scheme"
  shows "get_level (new_logger_sink l ext) = l
    \<and> is_enabled (new_logger_sink l ext) x = (x \<le> l)
    \<and> is_enabled s x = (x \<le> get_level s)
    \<and> (is_enabled s x \<and> y \<le> x \<longrightarrow> is_enabled s y)
    \<and> get_level (set_level s l2) = l2
    \<and> is_enabled (set_level s l2) x = (x \<le> l2)"
  by (auto simp add: is_enabled_def get_level_def set_level_def new_logger_sink_def)

theorem logger_sink_level_round_trip_witness:
  "is_enabled (new_logger_sink (3::nat) ()) 2 \<and> (1::nat) \<le> 2
   \<and> is_enabled (new_logger_sink (3::nat) ()) 1"
proof -
  have a: "is_enabled (new_logger_sink (3::nat) ()) 2"
    by (simp add: is_enabled_def new_logger_sink_def)
  have b: "(1::nat) \<le> 2" by simp
  from logger_sink_level_round_trip [of "3::nat" "()" 2 "new_logger_sink 3 ()" 1 5] a b
  show ?thesis by blast
qed

subsection \<open>Build targets\<close>

text \<open>
  Claim C4. The constructor of \<^verbatim>\<open>DolbyIODebugTarget\<close> sets the target type to
  \<^verbatim>\<open>Game\<close> and the one of \<^verbatim>\<open>DolbyIODebugEditorTarget\<close> sets it to \<^verbatim>\<open>Editor\<close>. Both
  set the default build settings to \<^verbatim>\<open>V2\<close> and the include order version to
  \<^verbatim>\<open>Unreal5_1\<close>, both append the single module name \<^verbatim>\<open>DolbyIODebug\<close> to the extra
  module names, and neither changes any other property that the base constructor left.
\<close>

theorem target_constructors:
  "Type (DolbyIODebugTarget r) = Game
   \<and> Type (DolbyIODebugEditorTarget r) = Editor
   \<and> DefaultBuildSettings (DolbyIODebugTarget r) = V2
   \<and> DefaultBuildSettings (DolbyIODebugEditorTarget r) = V2
   \<and> IncludeOrderVersion (DolbyIODebugTarget r) = Unreal5_1
   \<and> IncludeOrderVersion (DolbyIODebugEditorTarget r) = Unreal5_1
   \<and> ExtraModuleNames (DolbyIODebugTarget r) = ExtraModuleNames r @ [''DolbyIODebug'']
   \<and> ExtraModuleNames (DolbyIODebugEditorTarget r) = ExtraModuleNames r @ [''DolbyIODebug'']
   \<and> length (ExtraModuleNames (DolbyIODebugTarget r)) = length (ExtraModuleNames r) + 1
   \<and> length (ExtraModuleNames (DolbyIODebugEditorTarget r)) = length (ExtraModuleNames r) + 1
   \<and> TargetRules.more (DolbyIODebugTarget r) = TargetRules.more r
   \<and> TargetRules.more (DolbyIODebugEditorTarget r) = TargetRules.more r"
  by (simp add: DolbyIODebugTarget_def DolbyIODebugEditorTarget_def)

subsection \<open>Members defined in the headers\<close>










end
